theory Spec2Isabelle
  imports Complex_Main
begin

section \<open>Data model of the Gantt chart application\<close>

text \<open>
  The application keeps one pandas DataFrame, the Row Store, with the columns
  Task, Start, Duration and Resource.  A DataFrame is modelled as the left-to-right
  order of its columns together with its rows; a row is a record with one field
  per column, named as in the source.

  Text is represented by its UTF-8 bytes (a \<open>string\<close>), so encoding it adds
  nothing but the byte-order mark.
\<close>

datatype column = CTask | CStart | CDuration | CResource | CFinish

text \<open>
  A cell of the Start column before \<open>pd.to_datetime\<close>: a calendar date (a
  \<open>datetime.date\<close> from the date widgets, or ISO text from the seed file) given by
  year, month and day; a date with a time of day, given in nanoseconds since
  midnight; a missing value (\<open>None\<close>); or text that is not a date.
\<close>

datatype start_cell = DateV int int int | DateTimeV int int int nat | NoDate | BadDate

text \<open>
  A cell of the Duration column before \<open>astype(int)\<close>: an integer of any size,
  a finite floating-point number (given by the rational it denotes), a
  non-finite one (NaN, which is also how a missing number is stored in a float
  column, or an infinity), or a value that is no number (text that is not an
  integer literal, or \<open>None\<close> among Python objects).
\<close>

datatype duration_cell = IntV int | FloatV rat | NonFinite | NotNumber

text \<open>
  A \<open>datetime64[ns]\<close> value is the 64-bit count of nanoseconds since
  1970-01-01 00:00; the least 64-bit integer is not a time but NaT, which is
  \<open>None\<close> here.  A \<open>timedelta64[ns]\<close> value is a count of nanoseconds in the
  same way.
\<close>

type_synonym timestamp = "int option"
type_synonym timedelta = "int option"

record ('s, 'd) task_row =
  Task :: string
  Start :: 's
  Duration :: 'd
  Resource :: string

record derived_row = "(timestamp, int) task_row" +
  Finish :: timestamp

record 'r frame =
  cols :: "column list"
  rws :: "'r list"

type_synonym raw_row = "(start_cell, duration_cell) task_row"
type_synonym raw_frame = "raw_row frame"
type_synonym derived_frame = "derived_row frame"

datatype error =
    DateParseError
  | OutOfBoundsDatetime
  | IntCastingNaNError
  | ValueError
  | OutOfBoundsTimedelta
  | OverflowError

section \<open>The proleptic Gregorian calendar\<close>

definition is_leap :: "int \<Rightarrow> bool" where
  "is_leap y = (y mod 4 = 0 \<and> (y mod 100 \<noteq> 0 \<or> y mod 400 = 0))"

definition days_in_month :: "int \<Rightarrow> int \<Rightarrow> int" where
  "days_in_month y m =
     (if m = 2 then (if is_leap y then 29 else 28)
      else if m = 4 \<or> m = 6 \<or> m = 9 \<or> m = 11 then 30 else 31)"

definition valid_date :: "int \<Rightarrow> int \<Rightarrow> int \<Rightarrow> bool" where
  "valid_date y m d = (1 \<le> m \<and> m \<le> 12 \<and> 1 \<le> d \<and> d \<le> days_in_month y m)"

text \<open>Days since 1970-01-01 of a calendar date; years are counted from March.\<close>

definition days_from_civil :: "int \<Rightarrow> int \<Rightarrow> int \<Rightarrow> int" where
  "days_from_civil y m d =
     (let y' = (if m \<le> 2 then y - 1 else y);
          era = y' div 400;
          yoe = y' mod 400;
          mp = (m + 9) mod 12;
          doy = (153 * mp + 2) div 5 + d - 1;
          doe = yoe * 365 + yoe div 4 - yoe div 100 + doy
      in era * 146097 + doe - 719468)"

text \<open>The calendar date of a day number.  A 400-year era has 146097 days; the
  day of the era gives the century, the 4-year cycle and the year within it (the
  last day of a cycle and of an era is the leap day), and the day of the
  March-based year gives the month and the day.\<close>

definition year_day :: "int \<Rightarrow> int \<times> int" where
  "year_day doe =
     (let c = min 3 (doe div 36524);
          dc = doe - c * 36524;
          q = dc div 1461;
          dq = dc mod 1461;
          yq = min 3 (dq div 365)
      in (c * 100 + q * 4 + yq, dq - 365 * yq))"

definition month_day :: "int \<Rightarrow> int \<times> int" where
  "month_day doy =
     (let mp = (5 * doy + 2) div 153
      in (if mp < 10 then mp + 3 else mp - 9, doy - (153 * mp + 2) div 5 + 1))"

definition civil_from_days :: "int \<Rightarrow> int \<times> int \<times> int" where
  "civil_from_days z =
     (let z' = z + 719468;
          era = z' div 146097;
          (yoe, doy) = year_day (z' mod 146097);
          (m, d) = month_day doy;
          y' = era * 400 + yoe
      in (if m \<le> 2 then y' + 1 else y', m, d))"

section \<open>The derive step\<close>

subsection \<open>64-bit integers and the nanosecond clock\<close>

definition int64_min :: int where
  "int64_min = - 9223372036854775808"

definition int64_max :: int where
  "int64_max = 9223372036854775807"

definition in_int64 :: "int \<Rightarrow> bool" where
  "in_int64 n = (int64_min \<le> n \<and> n \<le> int64_max)"

text \<open>The value a 64-bit two's complement register holds for an integer.\<close>

definition wrap64 :: "int \<Rightarrow> int" where
  "wrap64 n = (n + 9223372036854775808) mod 18446744073709551616 - 9223372036854775808"

definition ns_per_day :: int where
  "ns_per_day = 86400000000000"

text \<open>The largest whole number of days a \<open>Timedelta\<close> can hold; a whole day
  is on the clock of \<open>Timestamp\<close> from 1677-09-22 to 2262-04-11, the same number
  of days before and after 1970-01-01.\<close>

definition day_max :: int where
  "day_max = 106751"

definition in_bounds :: "int \<Rightarrow> bool" where
  "in_bounds z = (- day_max \<le> z \<and> z \<le> day_max)"

subsection \<open>\<open>pd.to_datetime\<close>\<close>

text \<open>A date and a time of day as a \<open>Timestamp\<close>; the default
  \<open>errors="raise"\<close>.\<close>

definition stamp :: "int \<Rightarrow> int \<Rightarrow> int \<Rightarrow> nat \<Rightarrow> error + timestamp" where
  "stamp y m d t =
     (if \<not> valid_date y m d \<or> ns_per_day \<le> int t then Inl DateParseError
      else if int64_min < days_from_civil y m d * ns_per_day + int t \<and>
              days_from_civil y m d * ns_per_day + int t \<le> int64_max
           then Inr (Some (days_from_civil y m d * ns_per_day + int t))
      else Inl OutOfBoundsDatetime)"

fun to_datetime :: "start_cell \<Rightarrow> error + timestamp" where
  "to_datetime NoDate = Inr None"
| "to_datetime BadDate = Inl DateParseError"
| "to_datetime (DateV y m d) = stamp y m d 0"
| "to_datetime (DateTimeV y m d t) = stamp y m d t"

subsection \<open>\<open>astype(int)\<close>\<close>

text \<open>
  A pandas column has one dtype, and what \<open>astype(int)\<close> does to a value that
  does not fit 64 bits depends on it.  The Duration column of a table with the
  given cells is taken to be: \<open>int64\<close> when every cell is an integer that fits
  64 bits; \<open>uint64\<close> when every cell is a non-negative integer and one needs
  the 64th bit; \<open>float64\<close> when the cells are numbers with a float or a
  missing number among them, and every integer among them is a \<open>float64\<close>
  exactly (at most \<open>2^53\<close> in absolute value); and a column of Python objects
  otherwise, that is when a cell is no number, or an integer is too large for
  the numeric dtypes.
\<close>

datatype dtype = Int64 | UInt64 | Float64 | Object

fun fits_int64 :: "duration_cell \<Rightarrow> bool" where
  "fits_int64 (IntV n) = in_int64 n"
| "fits_int64 _ = False"

fun fits_uint64 :: "duration_cell \<Rightarrow> bool" where
  "fits_uint64 (IntV n) = (0 \<le> n \<and> n \<le> 18446744073709551615)"
| "fits_uint64 _ = False"

fun fits_float64 :: "duration_cell \<Rightarrow> bool" where
  "fits_float64 (IntV n) = (\<bar>n\<bar> \<le> 9007199254740992)"
| "fits_float64 (FloatV q) = True"
| "fits_float64 NonFinite = True"
| "fits_float64 NotNumber = False"

definition dtype_of :: "duration_cell list \<Rightarrow> dtype" where
  "dtype_of cells =
     (if list_all fits_int64 cells then Int64
      else if list_all fits_uint64 cells then UInt64
      else if list_all fits_float64 cells then Float64
      else Object)"

text \<open>Conversion of a float to an integer drops the fractional part.\<close>

definition trunc :: "rat \<Rightarrow> int" where
  "trunc q = (if 0 \<le> q then \<lfloor>q\<rfloor> else \<lceil>q\<rceil>)"

text \<open>
  \<open>astype(int)\<close> on one cell of a column of the given dtype, \<open>int\<close> being
  \<open>int64\<close>.  A \<open>uint64\<close> is reinterpreted in two's complement.  A \<open>float64\<close>
  column is refused as a whole when a value is not finite; otherwise every
  value is cast by the processor, which on x86-64 gives the least 64-bit
  integer for a float whose integer part does not fit (an integer in a
  \<open>float64\<close> column is the float of that value).  Python objects are converted
  one by one by \<open>int()\<close>, which drops the fractional part of a float and raises
  for a value that is no number, is not finite, or does not fit 64 bits.
\<close>

fun astype_int :: "dtype \<Rightarrow> duration_cell \<Rightarrow> error + int" where
  "astype_int dt (IntV n) =
     (if in_int64 n then Inr n
      else if dt = UInt64 then Inr (wrap64 n)
      else if dt = Float64 then Inr int64_min
      else Inl OverflowError)"
| "astype_int dt (FloatV q) =
     (if in_int64 (trunc q) then Inr (trunc q)
      else if dt = Float64 then Inr int64_min
      else Inl OverflowError)"
| "astype_int dt NonFinite = Inl (if dt = Float64 then IntCastingNaNError else ValueError)"
| "astype_int dt NotNumber = Inl ValueError"

subsection \<open>\<open>pd.to_timedelta\<close> and the sum\<close>

text \<open>\<open>pd.to_timedelta(_, unit="D")\<close> on one 64-bit integer, a number of days:
  the least 64-bit integer is read as NaT, a number of days beyond the clock
  raises.\<close>

definition to_timedelta :: "int \<Rightarrow> error + timedelta" where
  "to_timedelta n =
     (if n = int64_min then Inr None
      else if in_bounds n then Inr (Some (n * ns_per_day))
      else Inl OutOfBoundsTimedelta)"

text \<open>Timestamp plus Timedelta: NaT on either side gives NaT; the sum of the
  two counts raises when it does not fit 64 bits, and is NaT when it is the
  least 64-bit integer.\<close>

fun ts_add :: "timestamp \<Rightarrow> timedelta \<Rightarrow> error + timestamp" where
  "ts_add (Some s) (Some t) =
     (if s + t < int64_min \<or> int64_max < s + t then Inl OverflowError
      else if s + t = int64_min then Inr None
      else Inr (Some (s + t)))"
| "ts_add _ _ = Inr None"

subsection \<open>The columns of the derived table\<close>

text \<open>A column operation applies the cell operation down the column and raises
  at the first cell that raises.\<close>

fun traverse :: "('a \<Rightarrow> error + 'b) \<Rightarrow> 'a list \<Rightarrow> error + 'b list" where
  "traverse f [] = Inr []"
| "traverse f (x # xs) =
     (case f x of
        Inl e \<Rightarrow> Inl e
      | Inr y \<Rightarrow> (case traverse f xs of Inl e \<Rightarrow> Inl e | Inr ys \<Rightarrow> Inr (y # ys)))"

text \<open>Assignment \<open>df[c] = ...\<close>: an existing column keeps its place, a new one
  is appended on the right.\<close>

definition set_column :: "column \<Rightarrow> column list \<Rightarrow> column list" where
  "set_column c cs = (if c \<in> set cs then cs else cs @ [c])"

fun assemble :: "raw_row list \<Rightarrow> timestamp list \<Rightarrow> int list \<Rightarrow> timestamp list \<Rightarrow> derived_row list" where
  "assemble (r # rs) (s # ss) (n # ns) (f # fs) =
     \<lparr>Task = Task r, Start = s, Duration = n, Resource = Resource r, Finish = f\<rparr>
       # assemble rs ss ns fs"
| "assemble _ _ _ _ = []"

text \<open>
  \<^verbatim>\<open>
  def add_finish_column(df):
      df = df.copy()
      df["Start"] = pd.to_datetime(df["Start"])
      df["Duration"] = df["Duration"].astype(int)
      df["Finish"] = df["Start"] + pd.to_timedelta(df["Duration"], unit="D")
      return df
  \<close>
\<close>

definition add_finish_column :: "raw_frame \<Rightarrow> error + derived_frame" where
  "add_finish_column df =
     (case traverse to_datetime (map Start (rws df)) of
        Inl e \<Rightarrow> Inl e
      | Inr starts \<Rightarrow>
     (case traverse (astype_int (dtype_of (map Duration (rws df)))) (map Duration (rws df)) of
        Inl e \<Rightarrow> Inl e
      | Inr durs \<Rightarrow>
     (case traverse to_timedelta durs of
        Inl e \<Rightarrow> Inl e
      | Inr deltas \<Rightarrow>
     (case traverse (\<lambda>(s, t). ts_add s t) (zip starts deltas) of
        Inl e \<Rightarrow> Inl e
      | Inr fins \<Rightarrow>
          Inr \<lparr>cols = set_column CFinish (cols df),
               rws = assemble (rws df) starts durs fins\<rparr>))))"

section \<open>Statistics\<close>

text \<open>\<open>Series.min()\<close> and \<open>Series.max()\<close> on a datetime column skip NaT; on a
  column with no date at all (an empty one too) the result is NaT.\<close>

fun series_min :: "timestamp list \<Rightarrow> timestamp" where
  "series_min [] = None"
| "series_min (None # ts) = series_min ts"
| "series_min (Some a # ts) = (case series_min ts of None \<Rightarrow> Some a | Some b \<Rightarrow> Some (min a b))"

fun series_max :: "timestamp list \<Rightarrow> timestamp" where
  "series_max [] = None"
| "series_max (None # ts) = series_max ts"
| "series_max (Some a # ts) = (case series_max ts of None \<Rightarrow> Some a | Some b \<Rightarrow> Some (max a b))"

text \<open>\<open>Series.nunique()\<close>: the number of distinct values.\<close>

definition nunique :: "string list \<Rightarrow> nat" where
  "nunique xs = length (remdups xs)"

text \<open>
  \<^verbatim>\<open>
  def calculate_stats(df):
      total_tasks = len(df)
      total_days = df["Duration"].sum()
      resources = df["Resource"].nunique()
      earliest = df["Start"].min()
      latest = df["Finish"].max()
      return total_tasks, total_days, resources, earliest, latest
  \<close>
  The Duration column of a derived table is \<open>int64\<close>, and so is its sum: the
  additions are those of a 64-bit register.
\<close>

definition calculate_stats :: "derived_frame \<Rightarrow> nat \<times> int \<times> nat \<times> timestamp \<times> timestamp" where
  "calculate_stats df =
     (let total_tasks = length (rws df);
          total_days = wrap64 (sum_list (map Duration (rws df)));
          resources = nunique (map Resource (rws df));
          earliest = series_min (map Start (rws df));
          latest = series_max (map Finish (rws df))
      in (total_tasks, total_days, resources, earliest, latest))"

section \<open>The add-task handler\<close>

text \<open>
  The handler appends one row built from the sidebar widgets with
  \<open>pd.concat([df, new_row], ignore_index=True)\<close>: the columns of the table keep
  their order, and a column of the new row the table lacks is appended.  The
  start is the \<open>datetime.date\<close> of the date widget, the duration the integer of
  the number widget.
\<close>

definition add_task :: "raw_frame \<Rightarrow> string \<Rightarrow> int \<times> int \<times> int \<Rightarrow> int \<Rightarrow> string \<Rightarrow> raw_frame" where
  "add_task df new_task new_start new_duration new_resource =
     (case new_start of (y, m, d) \<Rightarrow>
        \<lparr>cols = foldl (\<lambda>cs c. set_column c cs) (cols df) [CTask, CStart, CDuration, CResource],
         rws = rws df @ [\<lparr>Task = new_task, Start = DateV y m d,
                          Duration = IntV new_duration, Resource = new_resource\<rparr>]\<rparr>)"

section \<open>The two-task scenario\<close>

text \<open>2024-01-01 is day 19723 since 1970-01-01, and a day has
  86400000000000 nanoseconds.\<close>

definition scenario :: raw_frame where
  "scenario =
     \<lparr>cols = [CTask, CStart, CDuration, CResource],
      rws = [\<lparr>Task = ''Design'', Start = DateV 2024 1 1, Duration = IntV 5, Resource = ''A''\<rparr>,
             \<lparr>Task = ''Build'', Start = DateV 2024 1 6, Duration = IntV 10, Resource = ''B''\<rparr>]\<rparr>"

definition scenario_derived :: derived_frame where
  "scenario_derived =
     \<lparr>cols = [CTask, CStart, CDuration, CResource, CFinish],
      rws = [\<lparr>Task = ''Design'', Start = Some 1704067200000000000, Duration = 5, Resource = ''A'',
              Finish = Some 1704499200000000000\<rparr>,
             \<lparr>Task = ''Build'', Start = Some 1704499200000000000, Duration = 10, Resource = ''B'',
              Finish = Some 1705363200000000000\<rparr>]\<rparr>"

section \<open>Example tables\<close>

definition negative_frame :: raw_frame where
  "negative_frame =
     \<lparr>cols = [CTask, CStart, CDuration, CResource],
      rws = [\<lparr>Task = ''Undo'', Start = DateV 2024 1 1, Duration = IntV (- 1), Resource = ''A''\<rparr>]\<rparr>"

definition negative_derived :: derived_frame where
  "negative_derived =
     \<lparr>cols = [CTask, CStart, CDuration, CResource, CFinish],
      rws = [\<lparr>Task = ''Undo'', Start = Some 1704067200000000000, Duration = - 1, Resource = ''A'',
              Finish = Some 1703980800000000000\<rparr>]\<rparr>"



definition nan_frame :: raw_frame where
  "nan_frame =
     \<lparr>cols = [CTask, CStart, CDuration, CResource],
      rws = [\<lparr>Task = ''Design'', Start = DateV 2024 1 1, Duration = IntV 5, Resource = ''A''\<rparr>,
             \<lparr>Task = '''', Start = NoDate, Duration = NonFinite, Resource = ''''\<rparr>]\<rparr>"


definition added_derived :: derived_frame where
  "added_derived =
     \<lparr>cols = [CTask, CStart, CDuration, CResource, CFinish],
      rws = [\<lparr>Task = ''Design'', Start = Some 1704067200000000000, Duration = 5, Resource = ''A'',
              Finish = Some 1704499200000000000\<rparr>,
             \<lparr>Task = ''Build'', Start = Some 1704499200000000000, Duration = 10, Resource = ''B'',
              Finish = Some 1705363200000000000\<rparr>,
             \<lparr>Task = ''Test'', Start = Some 1705708800000000000, Duration = 3, Resource = ''C'',
              Finish = Some 1705968000000000000\<rparr>]\<rparr>"

text \<open>A Duration that is the least 64-bit integer, as a seed file may hold it.\<close>

definition least_frame :: raw_frame where
  "least_frame =
     \<lparr>cols = [CTask, CStart, CDuration, CResource],
      rws = [\<lparr>Task = ''Design'', Start = DateV 2024 1 1,
              Duration = IntV (- 9223372036854775808), Resource = ''A''\<rparr>]\<rparr>"

definition least_derived :: derived_frame where
  "least_derived =
     \<lparr>cols = [CTask, CStart, CDuration, CResource, CFinish],
      rws = [\<lparr>Task = ''Design'', Start = Some 1704067200000000000,
              Duration = - 9223372036854775808, Resource = ''A'', Finish = None\<rparr>]\<rparr>"

text \<open>Two Durations of \<open>1e30\<close> days, floats far beyond 64 bits.\<close>

definition huge_frame :: raw_frame where
  "huge_frame =
     \<lparr>cols = [CTask, CStart, CDuration, CResource],
      rws = [\<lparr>Task = ''Design'', Start = DateV 2024 1 1,
              Duration = FloatV 1000000000000000000000000000000, Resource = ''A''\<rparr>,
             \<lparr>Task = ''Build'', Start = DateV 2024 1 6,
              Duration = FloatV 1000000000000000000000000000000, Resource = ''B''\<rparr>]\<rparr>"

definition huge_derived :: derived_frame where
  "huge_derived =
     \<lparr>cols = [CTask, CStart, CDuration, CResource, CFinish],
      rws = [\<lparr>Task = ''Design'', Start = Some 1704067200000000000,
              Duration = - 9223372036854775808, Resource = ''A'', Finish = None\<rparr>,
             \<lparr>Task = ''Build'', Start = Some 1704499200000000000,
              Duration = - 9223372036854775808, Resource = ''B'', Finish = None\<rparr>]\<rparr>"





section \<open>Delimited-text export\<close>

definition comma :: char where "comma = CHR '',''"
definition dquote :: char where "dquote = CHR 0x22"
definition LF :: char where "LF = CHR 0x0A"
definition CR :: char where "CR = CHR 0x0D"

definition digit_char :: "nat \<Rightarrow> char" where
  "digit_char n = ''0123456789'' ! n"

text \<open>\<open>str()\<close> of an integer: decimal digits, a minus sign for a negative one.\<close>

fun str_nat :: "nat \<Rightarrow> string" where
  "str_nat n = (if n < 10 then [digit_char n] else str_nat (n div 10) @ [digit_char (n mod 10)])"

definition str_int :: "int \<Rightarrow> string" where
  "str_int i = (if i < 0 then CHR ''-'' # str_nat (nat (- i)) else str_nat (nat i))"

definition pad2 :: "nat \<Rightarrow> string" where
  "pad2 n = [digit_char (n div 10 mod 10), digit_char (n mod 10)]"

definition pad4 :: "nat \<Rightarrow> string" where
  "pad4 n = [digit_char (n div 1000 mod 10), digit_char (n div 100 mod 10),
             digit_char (n div 10 mod 10), digit_char (n mod 10)]"

text \<open>The date of a day number as \<open>%Y-%m-%d\<close>; a year on the clock has four
  digits.\<close>

definition format_date :: "int \<Rightarrow> string" where
  "format_date z =
     (case civil_from_days z of
        (y, m, d) \<Rightarrow> pad4 (nat y) @ ''-'' @ pad2 (nat m) @ ''-'' @ pad2 (nat d))"

text \<open>
  \<open>to_csv\<close> writes a datetime column without a date format in one of two ways.
  When no value of the column has a time of day (NaT aside) every value is
  written as \<open>%Y-%m-%d\<close>.  Otherwise every value is written as
  \<open>%Y-%m-%d %H:%M:%S\<close>, followed by the fraction of the second in 3, 6 or 9
  digits when some value of the column is not a whole second: the digits are
  those of the finest unit, milli-, micro- or nanosecond, that a value needs.
  NaT is written as the empty text.
\<close>

definition off_grid :: "int \<Rightarrow> timestamp \<Rightarrow> bool" where
  "off_grid unit t = (case t of None \<Rightarrow> False | Some ns \<Rightarrow> ns mod unit \<noteq> 0)"

definition whole_day :: "timestamp \<Rightarrow> bool" where
  "whole_day t = (\<not> off_grid ns_per_day t)"

definition frac_digits :: "timestamp list \<Rightarrow> nat" where
  "frac_digits col =
     (if list_ex (off_grid 1000) col then 9
      else if list_ex (off_grid 1000000) col then 6
      else if list_ex (off_grid 1000000000) col then 3
      else 0)"

definition pad :: "nat \<Rightarrow> nat \<Rightarrow> string" where
  "pad k n = replicate (k - length (str_nat n)) (CHR ''0'') @ str_nat n"

definition format_datetime :: "nat \<Rightarrow> int \<Rightarrow> string" where
  "format_datetime k ns =
     (let t = nat (ns mod ns_per_day);
          s = t div 1000000000;
          f = t mod 1000000000
      in format_date (ns div ns_per_day) @ '' '' @
         pad2 (s div 3600) @ '':'' @ pad2 (s div 60 mod 60) @ '':'' @ pad2 (s mod 60) @
         (if k = 0 then [] else CHR ''.'' # pad k (f div 10 ^ (9 - k))))"

text \<open>The text of a value of the datetime column \<open>col\<close>.\<close>

fun format_ts :: "timestamp list \<Rightarrow> timestamp \<Rightarrow> string" where
  "format_ts col None = []"
| "format_ts col (Some ns) =
     (if list_all whole_day col then format_date (ns div ns_per_day)
      else format_datetime (frac_digits col) ns)"

fun column_name :: "column \<Rightarrow> string" where
  "column_name CTask = ''Task''"
| "column_name CStart = ''Start''"
| "column_name CDuration = ''Duration''"
| "column_name CResource = ''Resource''"
| "column_name CFinish = ''Finish''"

text \<open>The text of the cell of row \<open>r\<close> in column \<open>c\<close>, where \<open>starts\<close> and
  \<open>finishes\<close> are the Start and the Finish column the row is written with.\<close>

fun cell :: "timestamp list \<Rightarrow> timestamp list \<Rightarrow> derived_row \<Rightarrow> column \<Rightarrow> string" where
  "cell starts finishes r CTask = Task r"
| "cell starts finishes r CStart = format_ts starts (Start r)"
| "cell starts finishes r CDuration = str_int (Duration r)"
| "cell starts finishes r CResource = Resource r"
| "cell starts finishes r CFinish = format_ts finishes (Finish r)"

text \<open>The writer of Python's \<open>csv\<close> module as pandas sets it up: comma, double
  quote, minimal quoting (a field is quoted when it holds a comma, a quote or a
  line break), a doubled quote inside a quoted field, a lone empty field written
  as two quotes, and the line separator of the platform, a line feed on a POSIX
  host, after every record.\<close>

definition special :: "char \<Rightarrow> bool" where
  "special c = (c = comma \<or> c = dquote \<or> c = LF \<or> c = CR)"

definition escape :: "string \<Rightarrow> string" where
  "escape s = concat (map (\<lambda>c. if c = dquote then [dquote, dquote] else [c]) s)"

definition quote_field :: "string \<Rightarrow> string" where
  "quote_field s = (if list_ex special s then dquote # escape s @ [dquote] else s)"

fun join_fields :: "string list \<Rightarrow> string" where
  "join_fields [] = []"
| "join_fields [f] = quote_field f"
| "join_fields (f # fs) = quote_field f @ comma # join_fields fs"

definition csv_line :: "string list \<Rightarrow> string" where
  "csv_line fs = (if fs = [[]] then [dquote, dquote] else join_fields fs) @ [LF]"

text \<open>
  \<open>to_csv\<close> writes the header and then the rows in chunks of as many rows as
  make 100000 cells, at least one.  Each chunk is a slice of the table that is
  turned into text on its own, so the way a datetime column is written is
  decided for every chunk from the values of the column in that chunk.
\<close>

definition chunksize :: "column list \<Rightarrow> nat" where
  "chunksize cs =
     (let k = 100000 div (if cs = [] then 1 else length cs) in if k = 0 then 1 else k)"

function chunks :: "nat \<Rightarrow> 'a list \<Rightarrow> 'a list list" where
  "chunks n xs = (if n = 0 \<or> xs = [] then [] else take n xs # chunks n (drop n xs))"
  by pat_completeness auto

termination
  by (relation "measure (\<lambda>(n, xs). length xs)") auto

declare chunks.simps [simp del]

definition values_for_csv :: "column list \<Rightarrow> derived_row list \<Rightarrow> string list list" where
  "values_for_csv cs rs = map (\<lambda>r. map (cell (map Start rs) (map Finish rs) r) cs) rs"

definition save_chunk :: "column list \<Rightarrow> derived_row list \<Rightarrow> string" where
  "save_chunk cs rs = concat (map csv_line (values_for_csv cs rs))"

definition to_csv :: "derived_frame \<Rightarrow> string" where
  "to_csv df =
     csv_line (map column_name (cols df)) @
     concat (map (save_chunk (cols df)) (chunks (chunksize (cols df)) (rws df)))"

definition BOM :: string where
  "BOM = [CHR 0xEF, CHR 0xBB, CHR 0xBF]"

text \<open>
  \<^verbatim>\<open>
  def convert_df_to_csv(df):
      return df.to_csv(index=False).encode('utf-8-sig')
  \<close>
\<close>

definition convert_df_to_csv :: "derived_frame \<Rightarrow> string" where
  "convert_df_to_csv df = BOM @ to_csv df"


section \<open>Reading the export back\<close>





declare str_nat.simps [simp del]

section \<open>Reading the cells back\<close>















section \<open>The shape of a date in the export\<close>






section \<open>DataFrames as objects\<close>

text \<open>
  A DataFrame is a mutable object.  The heap is the list of the objects
  allocated so far and an address is a position in it; \<open>df.copy()\<close> allocates a
  new object, and the column assignments of the derive step write to the
  object the local name \<open>df\<close> then refers to.
\<close>

datatype obj = Raw raw_frame | Derived derived_frame

type_synonym heap = "obj list"
type_synonym addr = nat

definition deref :: "heap \<Rightarrow> addr \<Rightarrow> obj option" where
  "deref h a = (if a < length h then Some (h ! a) else None)"

definition add_finish_column_h :: "heap \<Rightarrow> addr \<Rightarrow> (heap \<times> (error + addr)) option" where
  "add_finish_column_h h a =
     (case deref h a of
        Some (Raw df) \<Rightarrow>
          (let a' = length h;
               h' = h @ [Raw df]
           in (case add_finish_column df of
                 Inl e \<Rightarrow> Some (h', Inl e)
               | Inr d \<Rightarrow> Some (h'[a' := Derived d], Inr a')))
      | _ \<Rightarrow> None)"

definition convert_df_to_csv_h :: "heap \<Rightarrow> addr \<Rightarrow> (heap \<times> string) option" where
  "convert_df_to_csv_h h a =
     (case deref h a of
        Some (Derived d) \<Rightarrow> Some (h, convert_df_to_csv d)
      | _ \<Rightarrow> None)"

text \<open>
  \<^verbatim>\<open>
  def convert_df_to_excel(df):
      output = io.BytesIO()
      with pd.ExcelWriter(output, engine='openpyxl') as writer:
          df.to_excel(writer, index=False, sheet_name=...)
      return output.getvalue()
  \<close>
  The workbook writer of openpyxl is a parameter: it gives the bytes of the
  workbook or raises.
\<close>

definition convert_df_to_excel_h ::
    "(derived_frame \<Rightarrow> error + string) \<Rightarrow> heap \<Rightarrow> addr \<Rightarrow> (heap \<times> (error + string)) option" where
  "convert_df_to_excel_h to_excel h a =
     (case deref h a of
        Some (Derived d) \<Rightarrow> Some (h, to_excel d)
      | _ \<Rightarrow> None)"

section \<open>Properties of the derive step\<close>

lemma traverse_Inr:
  "traverse f xs = Inr ys \<Longrightarrow> list_all2 (\<lambda>x y. f x = Inr y) xs ys"
proof (induction xs arbitrary: ys)
  case Nil
  then show ?case by simp
next
  case (Cons x xs)
  then show ?case by (auto split: sum.splits)
qed

lemma assemble_nth:
  "length ss = length rs \<Longrightarrow> length ns = length rs \<Longrightarrow> length fs = length rs \<Longrightarrow>
   length (assemble rs ss ns fs) = length rs \<and>
   (\<forall>i < length rs. assemble rs ss ns fs ! i =
      \<lparr>Task = Task (rs ! i), Start = ss ! i, Duration = ns ! i,
       Resource = Resource (rs ! i), Finish = fs ! i\<rparr>)"
proof (induction rs ss ns fs rule: assemble.induct)
  case (1 r rs s ss n ns f fs)
  then show ?case by (auto simp: nth_Cons split: nat.splits)
qed auto

text \<open>What a successful derive step says about the columns it computed.\<close>

lemma add_finish_column_Inr:
  assumes "add_finish_column df = Inr d"
  shows "cols d = set_column CFinish (cols df)"
    and "length (rws d) = length (rws df)"
    and "\<And>i. i < length (rws df) \<Longrightarrow>
           Task (rws d ! i) = Task (rws df ! i) \<and>
           Resource (rws d ! i) = Resource (rws df ! i) \<and>
           to_datetime (Start (rws df ! i)) = Inr (Start (rws d ! i)) \<and>
           astype_int (dtype_of (map Duration (rws df))) (Duration (rws df ! i)) =
             Inr (Duration (rws d ! i)) \<and>
           (\<exists>t. to_timedelta (Duration (rws d ! i)) = Inr t \<and>
                ts_add (Start (rws d ! i)) t = Inr (Finish (rws d ! i)))"
proof -
  let ?dt = "dtype_of (map Duration (rws df))"
  from assms obtain starts durs deltas fins where
    s: "traverse to_datetime (map Start (rws df)) = Inr starts" and
    n: "traverse (astype_int ?dt) (map Duration (rws df)) = Inr durs" and
    t: "traverse to_timedelta durs = Inr deltas" and
    f: "traverse (\<lambda>(s, t). ts_add s t) (zip starts deltas) = Inr fins" and
    d: "d = \<lparr>cols = set_column CFinish (cols df), rws = assemble (rws df) starts durs fins\<rparr>"
    by (auto simp: add_finish_column_def split: sum.splits)
  have ls: "list_all2 (\<lambda>x y. to_datetime x = Inr y) (map Start (rws df)) starts"
    using s by (rule traverse_Inr)
  have ln: "list_all2 (\<lambda>x y. astype_int ?dt x = Inr y) (map Duration (rws df)) durs"
    using n by (rule traverse_Inr)
  have lt: "list_all2 (\<lambda>x y. to_timedelta x = Inr y) durs deltas"
    using t by (rule traverse_Inr)
  have lf: "list_all2 (\<lambda>x y. (case x of (s, t) \<Rightarrow> ts_add s t) = Inr y) (zip starts deltas) fins"
    using f by (rule traverse_Inr)
  have len_s: "length starts = length (rws df)"
    using ls by (auto dest: list_all2_lengthD)
  have len_n: "length durs = length (rws df)"
    using ln by (auto dest: list_all2_lengthD)
  have len_t: "length deltas = length (rws df)"
    using lt len_n by (auto dest: list_all2_lengthD)
  have len_f: "length fins = length (rws df)"
    using lf len_s len_t by (auto dest: list_all2_lengthD)
  note asm = assemble_nth [OF len_s len_n len_f]
  show "cols d = set_column CFinish (cols df)"
    by (simp add: d)
  show "length (rws d) = length (rws df)"
    using asm by (simp add: d)
  fix i assume i: "i < length (rws df)"
  have row: "rws d ! i = \<lparr>Task = Task (rws df ! i), Start = starts ! i, Duration = durs ! i,
       Resource = Resource (rws df ! i), Finish = fins ! i\<rparr>"
    using asm i by (simp add: d)
  have a: "to_datetime (Start (rws df ! i)) = Inr (starts ! i)"
    using list_all2_nthD [OF ls, of i] i by simp
  have b: "astype_int ?dt (Duration (rws df ! i)) = Inr (durs ! i)"
    using list_all2_nthD [OF ln, of i] i by simp
  have c: "to_timedelta (durs ! i) = Inr (deltas ! i)"
    using list_all2_nthD [OF lt, of i] i len_n by simp
  have e: "ts_add (starts ! i) (deltas ! i) = Inr (fins ! i)"
    using list_all2_nthD [OF lf, of i] i len_s len_t by simp
  show "Task (rws d ! i) = Task (rws df ! i) \<and>
        Resource (rws d ! i) = Resource (rws df ! i) \<and>
        to_datetime (Start (rws df ! i)) = Inr (Start (rws d ! i)) \<and>
        astype_int ?dt (Duration (rws df ! i)) = Inr (Duration (rws d ! i)) \<and>
        (\<exists>t. to_timedelta (Duration (rws d ! i)) = Inr t \<and>
             ts_add (Start (rws d ! i)) t = Inr (Finish (rws d ! i)))"
    using a b c e by (simp add: row)
qed

text \<open>A Start of a derived table is a count on the clock.\<close>

lemma to_datetime_range:
  "to_datetime c = Inr (Some s) \<Longrightarrow> int64_min < s \<and> s \<le> int64_max"
  by (cases c) (auto simp: stamp_def split: if_splits)

text \<open>The Finish of a derived row, from its Start and its Duration.\<close>

lemma finish_cases:
  assumes "to_timedelta n = Inr t" and "ts_add s t = Inr f"
  shows "f = (case s of
                None \<Rightarrow> None
              | Some a \<Rightarrow> if n = int64_min \<or> a + n * ns_per_day = int64_min then None
                          else Some (a + n * ns_per_day))"
proof (cases s)
  case None
  with assms show ?thesis by simp
next
  case (Some a)
  show ?thesis
  proof (cases "n = int64_min")
    case True
    with assms Some show ?thesis by (simp add: to_timedelta_def)
  next
    case False
    with assms(1) have "t = Some (n * ns_per_day)"
      by (auto simp: to_timedelta_def split: if_splits)
    with assms(2) Some False show ?thesis
      by (auto split: if_splits)
  qed
qed

lemma derived_row:
  assumes "add_finish_column df = Inr d" and "i < length (rws d)"
  shows "Finish (rws d ! i) =
           (case Start (rws d ! i) of
              None \<Rightarrow> None
            | Some a \<Rightarrow>
                if Duration (rws d ! i) = int64_min \<or>
                   a + Duration (rws d ! i) * ns_per_day = int64_min then None
                else Some (a + Duration (rws d ! i) * ns_per_day))"
    and "Start (rws d ! i) = Some s \<Longrightarrow> int64_min < s \<and> s \<le> int64_max"
    and "Finish (rws d ! i) = Some f \<Longrightarrow> int64_min < f \<and> f \<le> int64_max"
    and "Duration (rws d ! i) = int64_min \<or> in_bounds (Duration (rws d ! i))"
proof -
  from assms have i: "i < length (rws df)"
    using add_finish_column_Inr(2) [OF assms(1)] by simp
  from add_finish_column_Inr(3) [OF assms(1) i] obtain t where
    a: "to_datetime (Start (rws df ! i)) = Inr (Start (rws d ! i))" and
    t: "to_timedelta (Duration (rws d ! i)) = Inr t" and
    f: "ts_add (Start (rws d ! i)) t = Inr (Finish (rws d ! i))"
    by blast
  from t f show "Finish (rws d ! i) =
           (case Start (rws d ! i) of
              None \<Rightarrow> None
            | Some a \<Rightarrow>
                if Duration (rws d ! i) = int64_min \<or>
                   a + Duration (rws d ! i) * ns_per_day = int64_min then None
                else Some (a + Duration (rws d ! i) * ns_per_day))"
    by (rule finish_cases)
  show "int64_min < s \<and> s \<le> int64_max" if "Start (rws d ! i) = Some s"
    using a that by (auto dest: to_datetime_range)
  show "int64_min < f \<and> f \<le> int64_max" if "Finish (rws d ! i) = Some f"
  proof -
    from f that obtain a b where "Start (rws d ! i) = Some a" "t = Some b"
      "ts_add (Some a) (Some b) = Inr (Some f)"
      by (cases "Start (rws d ! i)"; cases t) auto
    then show ?thesis
      by (auto split: if_splits)
  qed
  from t show "Duration (rws d ! i) = int64_min \<or> in_bounds (Duration (rws d ! i))"
    by (auto simp: to_timedelta_def split: if_splits)
qed

lemmas eval_defs = add_finish_column_def stamp_def valid_date_def days_in_month_def is_leap_def
  days_from_civil_def in_bounds_def day_max_def to_timedelta_def set_column_def trunc_def
  dtype_of_def in_int64_def int64_min_def int64_max_def ns_per_day_def wrap64_def

lemma scenario_derive: "add_finish_column scenario = Inr scenario_derived"
  by (simp add: scenario_def scenario_derived_def eval_defs)

lemma negative_derive: "add_finish_column negative_frame = Inr negative_derived"
  by (simp add: negative_frame_def negative_derived_def eval_defs)

lemma least_derive: "add_finish_column least_frame = Inr least_derived"
  by (simp add: least_frame_def least_derived_def eval_defs)

lemma nan_derive: "add_finish_column nan_frame = Inl IntCastingNaNError"
  by (simp add: nan_frame_def eval_defs)



lemma added_derive:
  "add_finish_column (add_task scenario ''Test'' (2024, 1, 20) 3 ''C'') = Inr added_derived"
  by (simp add: add_task_def scenario_def added_derived_def eval_defs)

lemma trunc_examples:
  "trunc (5 / 2) = 2" "trunc (- (5 / 2)) = - 2"
  "trunc 1000000000000000000000000000000 = 1000000000000000000000000000000"
proof -
  have "\<lfloor>5 / 2 :: rat\<rfloor> = 2"
    by (rule floor_unique) simp_all
  then show "trunc (5 / 2) = 2"
    by (simp add: trunc_def)
  have "\<lceil>- (5 / 2) :: rat\<rceil> = - 2"
    by (rule ceiling_unique) simp_all
  then show "trunc (- (5 / 2)) = - 2"
    by (simp add: trunc_def)
  show "trunc 1000000000000000000000000000000 = 1000000000000000000000000000000"
    by (simp add: trunc_def)
qed

lemmas float_defs = add_finish_column_def stamp_def valid_date_def days_in_month_def is_leap_def
  days_from_civil_def in_bounds_def day_max_def to_timedelta_def set_column_def
  dtype_of_def in_int64_def int64_min_def int64_max_def ns_per_day_def trunc_examples


lemma huge_derive: "add_finish_column huge_frame = Inr huge_derived"
  by (simp add: huge_frame_def huge_derived_def float_defs)





lemma series_min_None: "series_min ts = None \<longleftrightarrow> (\<forall>t \<in> set ts. t = None)"
  by (induction ts rule: series_min.induct) (auto split: option.splits)

lemma series_min_Some:
  "series_min ts = Some e \<Longrightarrow> Some e \<in> set ts \<and> (\<forall>s. Some s \<in> set ts \<longrightarrow> e \<le> s)"
proof (induction ts arbitrary: e rule: series_min.induct)
  case 1
  then show ?case by simp
next
  case (2 ts)
  then show ?case by simp
next
  case (3 a ts)
  show ?case
  proof (cases "series_min ts")
    case None
    with 3 series_min_None [of ts] show ?thesis by auto
  next
    case (Some b)
    with 3 have "e = min a b" and "Some b \<in> set ts" and "\<forall>s. Some s \<in> set ts \<longrightarrow> b \<le> s"
      by auto
    then show ?thesis by (cases "a \<le> b") (auto simp: min_def)
  qed
qed

lemma series_max_None: "series_max ts = None \<longleftrightarrow> (\<forall>t \<in> set ts. t = None)"
  by (induction ts rule: series_max.induct) (auto split: option.splits)

lemma series_max_Some:
  "series_max ts = Some e \<Longrightarrow> Some e \<in> set ts \<and> (\<forall>s. Some s \<in> set ts \<longrightarrow> s \<le> e)"
proof (induction ts arbitrary: e rule: series_max.induct)
  case 1
  then show ?case by simp
next
  case (2 ts)
  then show ?case by simp
next
  case (3 a ts)
  show ?case
  proof (cases "series_max ts")
    case None
    with 3 series_max_None [of ts] show ?thesis by auto
  next
    case (Some b)
    with 3 have "e = max a b" and "Some b \<in> set ts" and "\<forall>s. Some s \<in> set ts \<longrightarrow> s \<le> b"
      by auto
    then show ?thesis by (cases "a \<le> b") (auto simp: max_def)
  qed
qed

lemma nunique_card: "nunique xs = card (set xs)"
  by (simp add: nunique_def length_remdups_card_conv)

lemma nunique_snoc:
  "nunique (xs @ [x]) = (if x \<in> set xs then nunique xs else nunique xs + 1)"
  by (simp add: nunique_card insert_absorb)

lemma derived_Resource:
  assumes "add_finish_column df = Inr d"
  shows "map Resource (rws d) = map Resource (rws df)"
  using add_finish_column_Inr [OF assms] by (auto simp: list_eq_iff_nth_eq)

lemma wrap64_id: "in_int64 n \<Longrightarrow> wrap64 n = n"
  by (simp add: wrap64_def in_int64_def int64_min_def int64_max_def)

lemma wrap64_range: "in_int64 (wrap64 n)"
  by (simp add: wrap64_def in_int64_def int64_min_def int64_max_def)

lemma wrap64_cong: "(wrap64 n - n) mod 18446744073709551616 = 0"
proof -
  have "wrap64 n - n = (n + 9223372036854775808) mod 18446744073709551616 - (n + 9223372036854775808)"
    by (simp add: wrap64_def)
  also have "\<dots> = - (18446744073709551616 * ((n + 9223372036854775808) div 18446744073709551616))"
    by (simp add: minus_mult_div_eq_mod [symmetric])
  finally show ?thesis
    by simp
qed

text \<open>No whole number of days is the least 64-bit count of nanoseconds.\<close>

lemma whole_days_not_least: "k * ns_per_day \<noteq> int64_min"
proof
  assume "k * ns_per_day = int64_min"
  then have "(k * ns_per_day) mod ns_per_day = int64_min mod ns_per_day"
    by simp
  then show False
    by (simp add: ns_per_day_def int64_min_def)
qed

lemma days_sum: "a * ns_per_day + n * ns_per_day = (a + n) * ns_per_day"
  by (simp add: distrib_right)

text \<open>
  Claim C1 (as amended).  In every table the derive step produces, the Finish of
  a row is the count of its Start plus its Duration times the nanoseconds of a
  day, with three exceptions where it is NaT: the row has no Start; the Duration
  is the least 64-bit integer, which \<open>to_timedelta\<close> reads as NaT; the sum is the
  least 64-bit count.  For a Start given as a calendar date and a Duration other
  than the least 64-bit integer, the Finish is the date the Duration in days
  after the Start, by addition of day numbers.
\<close>

theorem finish_is_start_plus_duration:
  assumes "add_finish_column df = Inr d" and "i < length (rws d)"
  shows "Finish (rws d ! i) =
           (case Start (rws d ! i) of
              None \<Rightarrow> None
            | Some a \<Rightarrow>
                if Duration (rws d ! i) = int64_min \<or>
                   a + Duration (rws d ! i) * ns_per_day = int64_min then None
                else Some (a + Duration (rws d ! i) * ns_per_day)) \<and>
         (\<forall>y m dd. Start (rws df ! i) = DateV y m dd \<and> Duration (rws d ! i) \<noteq> int64_min \<longrightarrow>
            Start (rws d ! i) = Some (days_from_civil y m dd * ns_per_day) \<and>
            Finish (rws d ! i) = Some ((days_from_civil y m dd + Duration (rws d ! i)) * ns_per_day))"
proof (intro conjI allI impI)
  show f: "Finish (rws d ! i) =
           (case Start (rws d ! i) of
              None \<Rightarrow> None
            | Some a \<Rightarrow>
                if Duration (rws d ! i) = int64_min \<or>
                   a + Duration (rws d ! i) * ns_per_day = int64_min then None
                else Some (a + Duration (rws d ! i) * ns_per_day))"
    using assms by (rule derived_row(1))
  fix y m dd
  assume a: "Start (rws df ! i) = DateV y m dd \<and> Duration (rws d ! i) \<noteq> int64_min"
  from assms have i: "i < length (rws df)"
    using add_finish_column_Inr(2) [OF assms(1)] by simp
  from add_finish_column_Inr(3) [OF assms(1) i] a
  show s: "Start (rws d ! i) = Some (days_from_civil y m dd * ns_per_day)"
    by (auto simp: stamp_def split: if_splits)
  from f a show "Finish (rws d ! i) = Some ((days_from_civil y m dd + Duration (rws d ! i)) * ns_per_day)"
    by (simp add: s days_sum whole_days_not_least)
qed

theorem finish_is_start_plus_duration_witness:
  "add_finish_column scenario = Inr scenario_derived \<and> (1::nat) < length (rws scenario_derived) \<and>
   Start (rws scenario ! 1) = DateV 2024 1 6 \<and>
   days_from_civil 2024 1 6 = 19728 \<and>
   Finish (rws scenario_derived ! 1) = Some ((19728 + 10) * 86400000000000)"
proof -
  have l: "(1::nat) < length (rws scenario_derived)"
    by (simp add: scenario_derived_def)
  have s: "Start (rws scenario ! 1) = DateV 2024 1 6"
    by (simp add: scenario_def)
  have n: "Duration (rws scenario_derived ! 1) \<noteq> int64_min"
    by (simp add: scenario_derived_def int64_min_def)
  have c: "days_from_civil 2024 1 6 = 19728"
    by (simp add: days_from_civil_def)
  from finish_is_start_plus_duration [OF scenario_derive l] s n
  have "Finish (rws scenario_derived ! 1) =
      Some ((days_from_civil 2024 1 6 + Duration (rws scenario_derived ! 1)) * ns_per_day)"
    by blast
  then have "Finish (rws scenario_derived ! 1) = Some ((19728 + 10) * 86400000000000)"
    by (simp add: c ns_per_day_def scenario_derived_def)
  with scenario_derive l s c show ?thesis
    by blast
qed

text \<open>
  A Duration that is the least 64-bit integer is kept by \<open>astype(int)\<close> and read
  as NaT by \<open>to_timedelta\<close>: the derive step succeeds, and the row has a Start but
  no Finish.
\<close>

theorem finish_missing_counterexample:
  "add_finish_column least_frame = Inr least_derived \<and>
   Start (rws least_derived ! 0) = Some 1704067200000000000 \<and>
   Duration (rws least_derived ! 0) = - 9223372036854775808 \<and>
   Finish (rws least_derived ! 0) = None"
  using least_derive by (simp add: least_derived_def)

text \<open>
  Claim C5.  The derive step keeps the rows in place: the table it produces has
  as many rows as its input, and its n-th row has the Task of the n-th input row.
\<close>

theorem derive_preserves_row_order:
  assumes "add_finish_column df = Inr d"
  shows "length (rws d) = length (rws df) \<and> (\<forall>n < length (rws df). Task (rws d ! n) = Task (rws df ! n))"
  using add_finish_column_Inr [OF assms] by simp

theorem derive_preserves_row_order_witness:
  "add_finish_column scenario = Inr scenario_derived \<and>
   map Task (rws scenario_derived) = [''Design'', ''Build''] \<and>
   map Task (rws scenario) = [''Design'', ''Build'']"
proof -
  from derive_preserves_row_order [OF scenario_derive]
  have "Task (rws scenario_derived ! 0) = Task (rws scenario ! 0)"
    by (simp add: scenario_def)
  with scenario_derive show ?thesis by (simp add: scenario_derived_def scenario_def)
qed

lemma calculate_stats_scenario:
  "calculate_stats scenario_derived =
     (2, 15, 2, Some 1704067200000000000, Some 1705363200000000000)"
  by (simp add: calculate_stats_def scenario_derived_def nunique_def wrap64_def)

lemma dfc16:
  "days_from_civil 2024 1 16 * ns_per_day = 1705363200000000000"
  "days_from_civil 2024 1 1 * ns_per_day = 1704067200000000000"
  by (simp_all add: days_from_civil_def ns_per_day_def)

text \<open>
  Claim C3 (as amended).  The statistics of a derived table are the number of
  rows, the sum of the Durations as a 64-bit register holds it (the sum itself
  when it fits 64 bits, and congruent to it modulo \<open>2^64\<close> always), the number of
  distinct Resources, the least Start and the greatest Finish among the rows
  (rows without a date are skipped, and there is no date in the result only when
  no row has one); on the two-task scenario they are 2, 15, 2, 2024-01-01 and
  2024-01-16.
\<close>

theorem calculate_stats_correct:
  "(case calculate_stats d of (total_tasks, total_days, resources, earliest, latest) \<Rightarrow>
      total_tasks = length (rws d) \<and>
      total_days = wrap64 (\<Sum>r\<leftarrow>rws d. Duration r) \<and>
      in_int64 total_days \<and>
      (total_days - (\<Sum>r\<leftarrow>rws d. Duration r)) mod 18446744073709551616 = 0 \<and>
      (in_int64 (\<Sum>r\<leftarrow>rws d. Duration r) \<longrightarrow> total_days = (\<Sum>r\<leftarrow>rws d. Duration r)) \<and>
      resources = card (Resource ` set (rws d)) \<and>
      (case earliest of
         None \<Rightarrow> \<forall>r \<in> set (rws d). Start r = None
       | Some e \<Rightarrow> (\<exists>r \<in> set (rws d). Start r = Some e) \<and>
                   (\<forall>r \<in> set (rws d). \<forall>s. Start r = Some s \<longrightarrow> e \<le> s)) \<and>
      (case latest of
         None \<Rightarrow> \<forall>r \<in> set (rws d). Finish r = None
       | Some l \<Rightarrow> (\<exists>r \<in> set (rws d). Finish r = Some l) \<and>
                   (\<forall>r \<in> set (rws d). \<forall>f. Finish r = Some f \<longrightarrow> f \<le> l))) \<and>
   add_finish_column scenario = Inr scenario_derived \<and>
   calculate_stats scenario_derived =
     (2, 15, 2, Some (days_from_civil 2024 1 1 * ns_per_day),
      Some (days_from_civil 2024 1 16 * ns_per_day))"
proof -
  have e: "case series_min (map Start (rws d)) of
         None \<Rightarrow> \<forall>r \<in> set (rws d). Start r = None
       | Some e \<Rightarrow> (\<exists>r \<in> set (rws d). Start r = Some e) \<and>
                   (\<forall>r \<in> set (rws d). \<forall>s. Start r = Some s \<longrightarrow> e \<le> s)"
  proof (cases "series_min (map Start (rws d))")
    case None
    then show ?thesis using series_min_None [of "map Start (rws d)"] by simp
  next
    case (Some e)
    from series_min_Some [OF Some] show ?thesis
      by (simp add: Some) (metis (mono_tags, lifting) image_iff)
  qed
  have l: "case series_max (map Finish (rws d)) of
         None \<Rightarrow> \<forall>r \<in> set (rws d). Finish r = None
       | Some l \<Rightarrow> (\<exists>r \<in> set (rws d). Finish r = Some l) \<and>
                   (\<forall>r \<in> set (rws d). \<forall>f. Finish r = Some f \<longrightarrow> f \<le> l)"
  proof (cases "series_max (map Finish (rws d))")
    case None
    then show ?thesis using series_max_None [of "map Finish (rws d)"] by simp
  next
    case (Some e)
    from series_max_Some [OF Some] show ?thesis
      by (simp add: Some) (metis (mono_tags, lifting) image_iff)
  qed
  have gen: "case calculate_stats d of (total_tasks, total_days, resources, earliest, latest) \<Rightarrow>
      total_tasks = length (rws d) \<and>
      total_days = wrap64 (\<Sum>r\<leftarrow>rws d. Duration r) \<and>
      in_int64 total_days \<and>
      (total_days - (\<Sum>r\<leftarrow>rws d. Duration r)) mod 18446744073709551616 = 0 \<and>
      (in_int64 (\<Sum>r\<leftarrow>rws d. Duration r) \<longrightarrow> total_days = (\<Sum>r\<leftarrow>rws d. Duration r)) \<and>
      resources = card (Resource ` set (rws d)) \<and>
      (case earliest of
         None \<Rightarrow> \<forall>r \<in> set (rws d). Start r = None
       | Some e \<Rightarrow> (\<exists>r \<in> set (rws d). Start r = Some e) \<and>
                   (\<forall>r \<in> set (rws d). \<forall>s. Start r = Some s \<longrightarrow> e \<le> s)) \<and>
      (case latest of
         None \<Rightarrow> \<forall>r \<in> set (rws d). Finish r = None
       | Some l \<Rightarrow> (\<exists>r \<in> set (rws d). Finish r = Some l) \<and>
                   (\<forall>r \<in> set (rws d). \<forall>f. Finish r = Some f \<longrightarrow> f \<le> l))"
    using e l by (simp add: calculate_stats_def nunique_card wrap64_id wrap64_range wrap64_cong)
  have scn: "calculate_stats scenario_derived =
     (2, 15, 2, Some (days_from_civil 2024 1 1 * ns_per_day),
      Some (days_from_civil 2024 1 16 * ns_per_day))"
    by (simp only: calculate_stats_scenario dfc16)
  from gen scenario_derive scn show ?thesis by blast
qed

theorem calculate_stats_correct_witness:
  "calculate_stats scenario_derived =
     (2, 15, 2, Some 1704067200000000000, Some 1705363200000000000) \<and>
   length (rws scenario_derived) = 2 \<and>
   (\<Sum>r\<leftarrow>rws scenario_derived. Duration r) = 15 \<and>
   wrap64 15 = 15 \<and>
   card (Resource ` set (rws scenario_derived)) = 2"
proof -
  from calculate_stats_correct [of scenario_derived]
  have "calculate_stats scenario_derived =
     (2, 15, 2, Some (days_from_civil 2024 1 1 * ns_per_day),
      Some (days_from_civil 2024 1 16 * ns_per_day))"
    by blast
  then have a: "calculate_stats scenario_derived =
     (2, 15, 2, Some 1704067200000000000, Some 1705363200000000000)"
    by (simp only: dfc16)
  have b: "length (rws scenario_derived) = 2" "(\<Sum>r\<leftarrow>rws scenario_derived. Duration r) = 15"
    "card (Resource ` set (rws scenario_derived)) = 2"
    by (simp_all add: scenario_derived_def)
  have c: "wrap64 15 = 15"
    by (simp add: wrap64_def)
  from a b c show ?thesis
    by blast
qed

text \<open>
  Two Durations of \<open>1e30\<close> days are each cast to the least 64-bit integer by
  \<open>astype(int)\<close>; their sum is \<open>- 2^64\<close>, and the total the statistics give is 0.
\<close>

theorem total_days_counterexample:
  "add_finish_column huge_frame = Inr huge_derived \<and>
   (\<Sum>r\<leftarrow>rws huge_derived. Duration r) = - 18446744073709551616 \<and>
   fst (snd (calculate_stats huge_derived)) = 0"
  using huge_derive by (simp add: huge_derived_def calculate_stats_def wrap64_def)

text \<open>
  Claim C6.  On a table without rows the derive step succeeds with no rows, and
  the statistics are 0 tasks, 0 days, 0 resources and NaT, the missing-date
  sentinel, for the earliest start and the latest finish.
\<close>

theorem calculate_stats_empty:
  "add_finish_column \<lparr>cols = cs, rws = []\<rparr> = Inr \<lparr>cols = set_column CFinish cs, rws = []\<rparr> \<and>
   calculate_stats \<lparr>cols = cs', rws = []\<rparr> = (0, 0, 0, None, None)"
  by (simp add: add_finish_column_def calculate_stats_def nunique_def wrap64_def)


text \<open>
  Claim C7 (as amended).  In every table the derive step produces, a row with a
  Start date and a Duration of at least 1 has a Finish date strictly after the
  Start, and one with a Duration of at least 0 has a Finish date not before it.
\<close>

theorem finish_after_start:
  assumes "add_finish_column df = Inr d" and "i < length (rws d)"
    and "Start (rws d ! i) = Some s"
  shows "(1 \<le> Duration (rws d ! i) \<longrightarrow> (\<exists>f. Finish (rws d ! i) = Some f \<and> s < f)) \<and>
         (0 \<le> Duration (rws d ! i) \<longrightarrow> (\<exists>f. Finish (rws d ! i) = Some f \<and> s \<le> f))"
proof -
  let ?n = "Duration (rws d ! i)"
  have f: "Finish (rws d ! i) =
      (if ?n = int64_min \<or> s + ?n * ns_per_day = int64_min then None
       else Some (s + ?n * ns_per_day))"
    using derived_row(1) [OF assms(1,2)] assms(3) by simp
  have s: "int64_min < s"
    using derived_row(2) [OF assms(1,2) assms(3)] by simp
  have "Finish (rws d ! i) = Some (s + ?n * ns_per_day) \<and> s \<le> s + ?n * ns_per_day"
    if "0 \<le> ?n"
  proof -
    from that have p: "0 \<le> ?n * ns_per_day"
      by (simp add: ns_per_day_def)
    moreover from that have "?n \<noteq> int64_min"
      by (auto simp: int64_min_def)
    moreover from p s have "s + ?n * ns_per_day \<noteq> int64_min"
      by linarith
    ultimately show ?thesis
      using f by simp
  qed
  moreover have "s < s + ?n * ns_per_day" if "1 \<le> ?n"
  proof -
    from that have "1 * ns_per_day \<le> ?n * ns_per_day"
      by (intro mult_right_mono) (simp_all add: ns_per_day_def)
    then show ?thesis
      by (simp add: ns_per_day_def)
  qed
  ultimately show ?thesis
    by auto
qed

theorem finish_after_start_witness:
  "add_finish_column scenario = Inr scenario_derived \<and> (0::nat) < length (rws scenario_derived) \<and>
   Start (rws scenario_derived ! 0) = Some 1704067200000000000 \<and>
   1 \<le> Duration (rws scenario_derived ! 0) \<and>
   Finish (rws scenario_derived ! 0) = Some 1704499200000000000 \<and>
   (1704067200000000000::int) < 1704499200000000000"
proof -
  have l: "(0::nat) < length (rws scenario_derived)"
    and s: "Start (rws scenario_derived ! 0) = Some 1704067200000000000"
    and n: "1 \<le> Duration (rws scenario_derived ! 0)"
    and f: "Finish (rws scenario_derived ! 0) = Some 1704499200000000000"
    by (simp_all add: scenario_derived_def)
  from finish_after_start [OF scenario_derive l s] n
  have "\<exists>f. Finish (rws scenario_derived ! 0) = Some f \<and> 1704067200000000000 < f"
    by blast
  with f have "(1704067200000000000::int) < 1704499200000000000"
    by simp
  with scenario_derive l s n f show ?thesis by blast
qed

text \<open>
  The derive step has no check on the sign of a Duration: a negative one, which
  the edit widgets refuse but a seed table may hold, gives a Finish before the
  Start.
\<close>

theorem finish_before_start_counterexample:
  "add_finish_column negative_frame = Inr negative_derived \<and>
   Start (rws negative_derived ! 0) = Some 1704067200000000000 \<and>
   Finish (rws negative_derived ! 0) = Some 1703980800000000000 \<and>
   \<not> (1704067200000000000 \<le> (1703980800000000000::int))"
  using negative_derive by (simp add: negative_derived_def)






text \<open>
  Claim C8.  A task appended with a Resource the table already has leaves the
  number of distinct resources as it was; one with a new Resource adds
  exactly 1 to it.
\<close>

theorem add_task_resource_count:
  assumes "add_finish_column df = Inr d"
    and "add_finish_column (add_task df t st n r) = Inr d'"
  shows "fst (snd (snd (calculate_stats d'))) =
           (if r \<in> Resource ` set (rws df) then fst (snd (snd (calculate_stats d)))
            else fst (snd (snd (calculate_stats d))) + 1)"
proof -
  have "map Resource (rws d') = map Resource (rws df) @ [r]"
    using derived_Resource [OF assms(2)] by (simp add: add_task_def split: prod.splits)
  moreover have "map Resource (rws d) = map Resource (rws df)"
    using assms(1) by (rule derived_Resource)
  ultimately show ?thesis
    using nunique_snoc [of "map Resource (rws df)" r] by (simp add: calculate_stats_def)
qed

theorem add_task_resource_count_witness:
  "add_finish_column scenario = Inr scenario_derived \<and>
   add_finish_column (add_task scenario ''Test'' (2024, 1, 20) 3 ''C'') = Inr added_derived \<and>
   ''C'' \<notin> Resource ` set (rws scenario) \<and>
   fst (snd (snd (calculate_stats scenario_derived))) = 2 \<and>
   fst (snd (snd (calculate_stats added_derived))) = 2 + 1"
proof -
  have new: "''C'' \<notin> Resource ` set (rws scenario)"
    by (simp add: scenario_def)
  have two: "fst (snd (snd (calculate_stats scenario_derived))) = 2"
    by (simp add: calculate_stats_scenario)
  from add_task_resource_count [OF scenario_derive added_derive] new two
  have "fst (snd (snd (calculate_stats added_derived))) = 2 + 1"
    by simp
  with scenario_derive added_derive new two show ?thesis by blast
qed

section \<open>The reader inverts the writer\<close>

lemma chars_distinct [simp]:
  "comma \<noteq> dquote" "comma \<noteq> LF" "dquote \<noteq> comma" "dquote \<noteq> LF" "LF \<noteq> comma" "LF \<noteq> dquote"
  by (simp_all add: comma_def dquote_def LF_def)
















lemma whole_day_simps [simp]:
  "whole_day None" "whole_day (Some ns) \<longleftrightarrow> ns mod ns_per_day = 0"
  by (simp_all add: whole_day_def off_grid_def)





section \<open>Day numbers and calendar dates\<close>












section \<open>The cell readers invert the cell writers\<close>





















section \<open>Round trip of the export\<close>
















section \<open>The header, the dates and the byte-order mark of the export\<close>


















section \<open>The derive step and the exports leave their argument as it was\<close>

lemma add_finish_column_h_frame:
  assumes "add_finish_column_h h a = Some (h', res)"
  shows "take (length h) h' = h" and "deref h' a = deref h a"
proof -
  from assms obtain df where df: "deref h a = Some (Raw df)"
    by (auto simp: add_finish_column_h_def split: option.splits obj.splits)
  then have a: "a < length h"
    by (auto simp: deref_def split: if_splits)
  from assms df have h': "h' = h @ [Raw df] \<or> (\<exists>d. h' = (h @ [Raw df])[length h := Derived d])"
    by (auto simp: add_finish_column_h_def Let_def split: sum.splits)
  then show "take (length h) h' = h"
    by auto
  from h' a show "deref h' a = deref h a"
    by (auto simp: deref_def nth_append)
qed

lemma scenario_heap:
  "add_finish_column_h [Raw scenario] 0 = Some ([Raw scenario, Derived scenario_derived], Inr 1)"
  by (simp add: add_finish_column_h_def deref_def scenario_derive)

lemma nan_heap:
  "add_finish_column_h [Raw nan_frame] 0 = Some ([Raw nan_frame, Raw nan_frame], Inl IntCastingNaNError)"
  by (simp add: add_finish_column_h_def deref_def nan_derive)

text \<open>
  Claim C9.  The derive step works on a copy: every object that was on the heap
  before the call, the table it was given among them, is as it was after the
  call, whether the call returns a table or raises.  The two exports only read
  their table: the heap after them is the heap before, whether the workbook
  writer returns bytes or raises.
\<close>

theorem derive_and_exports_frame:
  "(add_finish_column_h h a = Some (h', r) \<longrightarrow> take (length h) h' = h \<and> deref h' a = deref h a) \<and>
   (convert_df_to_csv_h h b = Some (h1, bytes) \<longrightarrow> h1 = h) \<and>
   (convert_df_to_excel_h to_excel h b = Some (h2, x) \<longrightarrow> h2 = h)"
  by (auto simp: add_finish_column_h_frame convert_df_to_csv_h_def convert_df_to_excel_h_def
      split: option.splits obj.splits)

theorem derive_and_exports_frame_witness:
  "add_finish_column_h [Raw scenario] 0 = Some ([Raw scenario, Derived scenario_derived], Inr 1) \<and>
   deref [Raw scenario, Derived scenario_derived] 0 = Some (Raw scenario) \<and>
   add_finish_column_h [Raw nan_frame] 0 = Some ([Raw nan_frame, Raw nan_frame], Inl IntCastingNaNError) \<and>
   deref [Raw nan_frame, Raw nan_frame] 0 = Some (Raw nan_frame) \<and>
   convert_df_to_csv_h [Raw scenario, Derived scenario_derived] 1 =
     Some ([Raw scenario, Derived scenario_derived], convert_df_to_csv scenario_derived) \<and>
   convert_df_to_excel_h (\<lambda>d. Inl OverflowError) [Raw scenario, Derived scenario_derived] 1 =
     Some ([Raw scenario, Derived scenario_derived], Inl OverflowError)"
proof -
  have c: "convert_df_to_csv_h [Raw scenario, Derived scenario_derived] 1 =
     Some ([Raw scenario, Derived scenario_derived], convert_df_to_csv scenario_derived)"
    by (simp add: convert_df_to_csv_h_def deref_def)
  have x: "convert_df_to_excel_h (\<lambda>d. Inl OverflowError) [Raw scenario, Derived scenario_derived] 1 =
     Some ([Raw scenario, Derived scenario_derived], Inl OverflowError)"
    by (simp add: convert_df_to_excel_h_def deref_def)
  from derive_and_exports_frame [of "[Raw scenario]" 0 "[Raw scenario, Derived scenario_derived]" "Inr 1"]
    scenario_heap
  have 1: "deref [Raw scenario, Derived scenario_derived] 0 = deref [Raw scenario] 0"
    by blast
  from derive_and_exports_frame [of "[Raw nan_frame]" 0 "[Raw nan_frame, Raw nan_frame]"
      "Inl IntCastingNaNError"] nan_heap
  have 2: "deref [Raw nan_frame, Raw nan_frame] 0 = deref [Raw nan_frame] 0"
    by blast
  from 1 2 scenario_heap nan_heap c x show ?thesis
    by (simp add: deref_def)
qed

end
